theory Spec2Isabelle
  imports Complex_Main
begin

section \<open>Data model (packages/database/src/schemas/billing.ts)\<close>

text \<open>
  The three billing tables and the two model classes working on them
  (\<open>WalletModel\<close> and \<open>BillingModel\<close>, packages/database/src/models) are embedded
  as functions over an explicit database state. Credit amounts are the \<open>integer\<close>
  columns of the schema and are modelled as unbounded \<open>int\<close>; an \<open>async\<close>
  method becomes a function that takes the database and returns the database
  after the call together with the value (or the thrown error) of the call.
  Values the methods obtain from the environment are arguments of the model:
  \<open>now\<close> stands for \<open>new Date()\<close> and the \<open>gid\<close> arguments for the results of
  \<open>generateId()\<close>.
\<close>

datatype CreditSource = Free | Subscription | Package | Promo

datatype CreditReason =
  MonthlyFree | SubscriptionRenewal | Purchase | Refund | PromoReason | ManualAdjustment

datatype UsageSource = UsageFree | UsageSubscription | UsagePackage

datatype UsageStatus = Pending | Completed | Refunded

text \<open>A JavaScript \<open>Date\<close> in local time: full year, month index 0..11, day, time of day.\<close>

datatype Date = Date (year: int) (month: nat) (dayOfMonth: nat) (msOfDay: nat)

record WalletBalance =
  userId :: string
  freeCredits :: int
  subscriptionCredits :: int
  packageCredits :: int
  totalCredits :: int
  freeResetAt :: "Date option"
  subscriptionPeriodEnd :: "Date option"
  updatedAt :: Date

record CreditGrant =
  cg_id :: string
  cg_userId :: string
  cg_source :: CreditSource
  cg_credits :: int
  cg_reason :: CreditReason
  cg_expiresAt :: "Date option"
  cg_mpPaymentId :: "string option"
  cg_mpPreferenceId :: "string option"
  cg_createdAt :: Date

record UsageLedgerEntry =
  ul_id :: string
  ul_userId :: string
  ul_sessionId :: "string option"
  ul_messageId :: "string option"
  ul_provider :: string
  ul_model :: string
  ul_usageJson :: "(string \<times> int) list"
  ul_credits :: int
  ul_costUsd :: rat
  ul_source :: UsageSource
  ul_status :: UsageStatus
  ul_idempotencyKey :: "string option"
  ul_createdAt :: Date

text \<open>
  The database: \<open>wallet_balances\<close> has \<open>user_id\<close> as primary key, so it is a map
  from user ids to rows; \<open>credit_grants\<close> and \<open>usage_ledger\<close> are lists of rows in
  insertion order.
\<close>

record database =
  walletBalances :: "string \<rightharpoonup> WalletBalance"
  creditGrants :: "CreditGrant list"
  usageLedger :: "UsageLedgerEntry list"

definition empty_db :: database where
  "empty_db = \<lparr>walletBalances = Map.empty, creditGrants = [], usageLedger = []\<rparr>"

text \<open>The errors the two model classes throw.\<close>

datatype error =
  InsufficientCreditsError (required: int) (available: int)
| IdempotencyError

section \<open>WalletModel (packages/database/src/models/wallet.ts)\<close>

text \<open>\<open>x || null\<close> on an optional string: \<open>undefined\<close> and the empty string give \<open>null\<close>.\<close>

definition or_null :: "string option \<Rightarrow> string option" where
  "or_null x = (case x of None \<Rightarrow> None | Some s \<Rightarrow> if s = [] then None else Some s)"

text \<open>
  \<open>getNextMonthlyReset\<close>: \<open>new Date(now.getFullYear(), now.getMonth() + 1, 1)\<close>;
  month index 12 is January of the next year.
\<close>

definition getNextMonthlyReset :: "Date \<Rightarrow> Date" where
  "getNextMonthlyReset now =
     (if month now = 11 then Date (year now + 1) 0 1 0
      else Date (year now) (month now + 1) 1 0)"

record GrantParams =
  gp_userId :: string
  gp_source :: CreditSource
  gp_credits :: int
  gp_reason :: CreditReason
  gp_expiresAt :: "Date option"
  gp_mpPaymentId :: "string option"
  gp_mpPreferenceId :: "string option"

definition createCreditGrant :: "database \<Rightarrow> Date \<Rightarrow> string \<Rightarrow> GrantParams \<Rightarrow> database" where
  "createCreditGrant db now gid params =
     db\<lparr>creditGrants := creditGrants db @
       [\<lparr>cg_id = gid,
         cg_userId = gp_userId params,
         cg_source = gp_source params,
         cg_credits = gp_credits params,
         cg_reason = gp_reason params,
         cg_expiresAt = gp_expiresAt params,
         cg_mpPaymentId = or_null (gp_mpPaymentId params),
         cg_mpPreferenceId = or_null (gp_mpPreferenceId params),
         cg_createdAt = now\<rparr>]\<rparr>"

definition getOrCreateWallet ::
  "database \<Rightarrow> Date \<Rightarrow> string \<Rightarrow> string \<Rightarrow> database \<times> WalletBalance" where
  "getOrCreateWallet db now gid uid =
     (case walletBalances db uid of
        Some wallet \<Rightarrow> (db, wallet)
      | None \<Rightarrow>
          let newWallet = \<lparr>userId = uid,
                           freeCredits = 100000,
                           subscriptionCredits = 0,
                           packageCredits = 0,
                           totalCredits = 100000,
                           freeResetAt = Some (getNextMonthlyReset now),
                           subscriptionPeriodEnd = None,
                           updatedAt = now\<rparr>;
              db1 = db\<lparr>walletBalances := (walletBalances db)(uid \<mapsto> newWallet)\<rparr>;
              db2 = createCreditGrant db1 now gid
                      \<lparr>gp_userId = uid, gp_source = Free, gp_credits = 100000,
                       gp_reason = MonthlyFree, gp_expiresAt = None,
                       gp_mpPaymentId = None, gp_mpPreferenceId = None\<rparr>
          in (db2, newWallet))"

subsection \<open>deductCredits\<close>

text \<open>The local variables of \<open>deductCredits\<close>; \<open>deductedFrom\<close> starts unassigned.\<close>

record DeductState =
  remainingToDeduct :: int
  deductedFrom :: "CreditSource option"
  newPackageCredits :: int
  newSubscriptionCredits :: int
  newFreeCredits :: int

record DeductResult =
  source :: "CreditSource option"
  remainingCredits :: int

text \<open>The \<open>switch (source)\<close> of the preferred-source branch; it has no case for \<open>'promo'\<close>.\<close>

fun deductPreferred :: "WalletBalance \<Rightarrow> CreditSource \<Rightarrow> DeductState \<Rightarrow> DeductState" where
  "deductPreferred wallet Package st =
     (if packageCredits wallet \<ge> remainingToDeduct st
      then st\<lparr>newPackageCredits := newPackageCredits st - remainingToDeduct st,
              remainingToDeduct := 0,
              deductedFrom := Some Package\<rparr>
      else st)"
| "deductPreferred wallet Subscription st =
     (if subscriptionCredits wallet \<ge> remainingToDeduct st
      then st\<lparr>newSubscriptionCredits := newSubscriptionCredits st - remainingToDeduct st,
              remainingToDeduct := 0,
              deductedFrom := Some Subscription\<rparr>
      else st)"
| "deductPreferred wallet Free st =
     (if freeCredits wallet \<ge> remainingToDeduct st
      then st\<lparr>newFreeCredits := newFreeCredits st - remainingToDeduct st,
              remainingToDeduct := 0,
              deductedFrom := Some Free\<rparr>
      else st)"
| "deductPreferred wallet Promo st = st"

text \<open>The three \<open>if\<close> statements of the automatic order, one definition each.\<close>

definition deductPackageStep :: "WalletBalance \<Rightarrow> DeductState \<Rightarrow> DeductState" where
  "deductPackageStep wallet st =
     (if packageCredits wallet > 0 \<and> remainingToDeduct st > 0
      then let deductAmount = min (packageCredits wallet) (remainingToDeduct st)
           in st\<lparr>newPackageCredits := newPackageCredits st - deductAmount,
                  remainingToDeduct := remainingToDeduct st - deductAmount,
                  deductedFrom := Some Package\<rparr>
      else st)"

definition deductSubscriptionStep :: "WalletBalance \<Rightarrow> DeductState \<Rightarrow> DeductState" where
  "deductSubscriptionStep wallet st =
     (if subscriptionCredits wallet > 0 \<and> remainingToDeduct st > 0
      then let deductAmount = min (subscriptionCredits wallet) (remainingToDeduct st)
           in st\<lparr>newSubscriptionCredits := newSubscriptionCredits st - deductAmount,
                  remainingToDeduct := remainingToDeduct st - deductAmount,
                  deductedFrom := Some Subscription\<rparr>
      else st)"

definition deductFreeStep :: "WalletBalance \<Rightarrow> DeductState \<Rightarrow> DeductState" where
  "deductFreeStep wallet st =
     (if freeCredits wallet > 0 \<and> remainingToDeduct st > 0
      then let deductAmount = min (freeCredits wallet) (remainingToDeduct st)
           in st\<lparr>newFreeCredits := newFreeCredits st - deductAmount,
                  remainingToDeduct := remainingToDeduct st - deductAmount,
                  deductedFrom := Some Free\<rparr>
      else st)"

definition deductCredits ::
  "database \<Rightarrow> Date \<Rightarrow> string \<Rightarrow> int \<Rightarrow> CreditSource option
     \<Rightarrow> database \<times> (error + DeductResult)" where
  "deductCredits db now uid credits src =
     (case walletBalances db uid of
        None \<Rightarrow> (db, Inl (InsufficientCreditsError credits 0))
      | Some wallet \<Rightarrow>
          if totalCredits wallet < credits
          then (db, Inl (InsufficientCreditsError credits (totalCredits wallet)))
          else
            let st0 = \<lparr>remainingToDeduct = credits,
                       deductedFrom = None,
                       newPackageCredits = packageCredits wallet,
                       newSubscriptionCredits = subscriptionCredits wallet,
                       newFreeCredits = freeCredits wallet\<rparr>;
                st = (case src of
                        Some s \<Rightarrow> deductPreferred wallet s st0
                      | None \<Rightarrow>
                          deductFreeStep wallet
                            (deductSubscriptionStep wallet (deductPackageStep wallet st0)))
            in if remainingToDeduct st > 0
               then (db, Inl (InsufficientCreditsError credits (totalCredits wallet)))
               else
                 let newTotalCredits =
                       newPackageCredits st + newSubscriptionCredits st + newFreeCredits st
                 in (db\<lparr>walletBalances := (walletBalances db)(uid \<mapsto>
                          wallet\<lparr>packageCredits := newPackageCredits st,
                                 subscriptionCredits := newSubscriptionCredits st,
                                 freeCredits := newFreeCredits st,
                                 totalCredits := newTotalCredits,
                                 updatedAt := now\<rparr>)\<rparr>,
                     Inr \<lparr>source = deductedFrom st,
                          remainingCredits = newTotalCredits\<rparr>))"

subsection \<open>grantCredits and resetFreeCredits\<close>

record GrantMetadata =
  expiresAt :: "Date option"
  mpPaymentId :: "string option"
  mpPreferenceId :: "string option"

text \<open>
  \<open>updates: Partial<WalletBalance>\<close>: a field is \<open>None\<close> while it is not set, and
  \<open>.set(updates)\<close> writes the fields that are set.
\<close>

record WalletUpdates =
  upd_updatedAt :: "Date option"
  upd_freeCredits :: "int option"
  upd_subscriptionCredits :: "int option"
  upd_packageCredits :: "int option"
  upd_totalCredits :: "int option"
  upd_subscriptionPeriodEnd :: "Date option"

definition nullish :: "'a option \<Rightarrow> 'a \<Rightarrow> 'a" where
  "nullish x d = (case x of None \<Rightarrow> d | Some v \<Rightarrow> v)"

definition applyUpdates :: "WalletUpdates \<Rightarrow> WalletBalance \<Rightarrow> WalletBalance" where
  "applyUpdates u w =
     w\<lparr>updatedAt := nullish (upd_updatedAt u) (updatedAt w),
       freeCredits := nullish (upd_freeCredits u) (freeCredits w),
       subscriptionCredits := nullish (upd_subscriptionCredits u) (subscriptionCredits w),
       packageCredits := nullish (upd_packageCredits u) (packageCredits w),
       totalCredits := nullish (upd_totalCredits u) (totalCredits w),
       subscriptionPeriodEnd :=
         (case upd_subscriptionPeriodEnd u of
            None \<Rightarrow> subscriptionPeriodEnd w | Some d \<Rightarrow> Some d)\<rparr>"

text \<open>The \<open>switch (source)\<close> of \<open>grantCredits\<close>; \<open>'package'\<close> and \<open>'promo'\<close> share a body.\<close>

fun grantSwitch ::
  "CreditSource \<Rightarrow> WalletBalance \<Rightarrow> int \<Rightarrow> GrantMetadata \<Rightarrow> WalletUpdates \<Rightarrow> WalletUpdates" where
  "grantSwitch Free wallet credits metadata updates =
     updates\<lparr>upd_freeCredits := Some (freeCredits wallet + credits)\<rparr>"
| "grantSwitch Subscription wallet credits metadata updates =
     (let updates1 = updates\<lparr>upd_subscriptionCredits :=
                                Some (subscriptionCredits wallet + credits)\<rparr>
      in case expiresAt metadata of
           Some d \<Rightarrow> updates1\<lparr>upd_subscriptionPeriodEnd := Some d\<rparr>
         | None \<Rightarrow> updates1)"
| "grantSwitch Package wallet credits metadata updates =
     updates\<lparr>upd_packageCredits := Some (packageCredits wallet + credits)\<rparr>"
| "grantSwitch Promo wallet credits metadata updates =
     updates\<lparr>upd_packageCredits := Some (packageCredits wallet + credits)\<rparr>"

text \<open>
  \<open>gid\<close> is the id of the grant row, \<open>gid'\<close> the id \<open>getOrCreateWallet\<close> uses when it
  has to create the wallet. The \<open>update ... where user_id = userId\<close> rewrites the row
  \<open>getOrCreateWallet\<close> has just returned.
\<close>

definition grantCredits ::
  "database \<Rightarrow> Date \<Rightarrow> string \<Rightarrow> string \<Rightarrow> string \<Rightarrow> int \<Rightarrow> CreditSource \<Rightarrow> CreditReason
     \<Rightarrow> GrantMetadata \<Rightarrow> database" where
  "grantCredits db now gid gid' uid credits src reason metadata =
     (let db1 = createCreditGrant db now gid
                  \<lparr>gp_userId = uid, gp_source = src, gp_credits = credits,
                   gp_reason = reason, gp_expiresAt = expiresAt metadata,
                   gp_mpPaymentId = mpPaymentId metadata,
                   gp_mpPreferenceId = mpPreferenceId metadata\<rparr>;
          (db2, wallet) = getOrCreateWallet db1 now gid' uid;
          updates0 = \<lparr>upd_updatedAt = Some now, upd_freeCredits = None,
                      upd_subscriptionCredits = None, upd_packageCredits = None,
                      upd_totalCredits = None, upd_subscriptionPeriodEnd = None\<rparr>;
          updates1 = grantSwitch src wallet credits metadata updates0;
          updates2 = updates1\<lparr>upd_totalCredits := Some
                       (nullish (upd_freeCredits updates1) (freeCredits wallet) +
                        nullish (upd_subscriptionCredits updates1) (subscriptionCredits wallet) +
                        nullish (upd_packageCredits updates1) (packageCredits wallet))\<rparr>
      in db2\<lparr>walletBalances := (walletBalances db2)(uid \<mapsto> applyUpdates updates2 wallet)\<rparr>)"

text \<open>\<open>amount\<close> is optional with default 100000.\<close>

definition resetFreeCredits ::
  "database \<Rightarrow> Date \<Rightarrow> string \<Rightarrow> string \<Rightarrow> string \<Rightarrow> int option \<Rightarrow> database" where
  "resetFreeCredits db now gid gid' uid amountOpt =
     (let amount = nullish amountOpt 100000;
          (db1, wallet) = getOrCreateWallet db now gid' uid;
          newTotalCredits = amount + subscriptionCredits wallet + packageCredits wallet;
          db2 = db1\<lparr>walletBalances := (walletBalances db1)(uid \<mapsto>
                  wallet\<lparr>freeCredits := amount,
                         totalCredits := newTotalCredits,
                         freeResetAt := Some (getNextMonthlyReset now),
                         updatedAt := now\<rparr>)\<rparr>
      in createCreditGrant db2 now gid
           \<lparr>gp_userId = uid, gp_source = Free, gp_credits = amount,
            gp_reason = MonthlyFree, gp_expiresAt = None,
            gp_mpPaymentId = None, gp_mpPreferenceId = None\<rparr>)"

subsection \<open>canAfford and reconcileBalance\<close>

definition canAfford ::
  "database \<Rightarrow> Date \<Rightarrow> string \<Rightarrow> string \<Rightarrow> int \<Rightarrow> database \<times> bool" where
  "canAfford db now gid uid estimatedCredits =
     (let (db1, wallet) = getOrCreateWallet db now gid uid
      in (db1, totalCredits wallet \<ge> estimatedCredits))"

text \<open>
  \<open>select sum(credits) ... where user_id = userId\<close>; the sum over no rows is \<open>null\<close>,
  which \<open>|| 0\<close> turns into 0. Neither query of \<open>reconcileBalance\<close> filters on the
  status of a ledger entry. The factor \<open>0.01\<close> of the threshold is the exact
  fraction \<open>1 / 100\<close> here.
\<close>

definition sumGrants :: "database \<Rightarrow> string \<Rightarrow> int" where
  "sumGrants db uid = sum_list (map cg_credits (filter (\<lambda>g. cg_userId g = uid) (creditGrants db)))"

definition sumUsage :: "database \<Rightarrow> string \<Rightarrow> int" where
  "sumUsage db uid = sum_list (map ul_credits (filter (\<lambda>e. ul_userId e = uid) (usageLedger db)))"

record ReconcileReport =
  walletTotal :: int
  calculatedTotal :: int
  difference :: int
  needsAdjustment :: bool

definition reconcileBalance ::
  "database \<Rightarrow> Date \<Rightarrow> string \<Rightarrow> string \<Rightarrow> database \<times> ReconcileReport" where
  "reconcileBalance db now gid uid =
     (let (db1, wallet) = getOrCreateWallet db now gid uid;
          totalGranted = sumGrants db1 uid;
          totalUsed = sumUsage db1 uid;
          calculated = totalGranted - totalUsed;
          diff = \<bar>totalCredits wallet - calculated\<bar>;
          needs = (of_int diff > (of_int (totalCredits wallet) :: rat) * (1 / 100))
      in (db1, \<lparr>walletTotal = totalCredits wallet,
                calculatedTotal = calculated,
                difference = diff,
                needsAdjustment = needs\<rparr>))"

section \<open>BillingModel (packages/database/src/models, usage ledger)\<close>

record RecordUsageParams =
  ru_userId :: string
  ru_sessionId :: "string option"
  ru_messageId :: "string option"
  ru_provider :: string
  ru_model :: string
  ru_usage :: "(string \<times> int) list"
  ru_credits :: int
  ru_costUsd :: rat
  ru_source :: UsageSource
  ru_idempotencyKey :: string

definition findUsageByIdempotencyKey :: "database \<Rightarrow> string \<Rightarrow> UsageLedgerEntry option" where
  "findUsageByIdempotencyKey db key =
     find (\<lambda>e. ul_idempotencyKey e = Some key) (usageLedger db)"

text \<open>
  \<open>createUsageLedgerEntry\<close> throws \<open>IdempotencyError\<close> before any write when the key
  is taken. The \<open>numeric\<close> column \<open>cost_usd\<close> is modelled by the number it stores.
\<close>

definition createUsageLedgerEntry ::
  "database \<Rightarrow> Date \<Rightarrow> string \<Rightarrow> RecordUsageParams
     \<Rightarrow> database \<times> (error + UsageLedgerEntry)" where
  "createUsageLedgerEntry db now newId params =
     (case findUsageByIdempotencyKey db (ru_idempotencyKey params) of
        Some existing \<Rightarrow> (db, Inl IdempotencyError)
      | None \<Rightarrow>
          let entry = \<lparr>ul_id = newId,
                       ul_userId = ru_userId params,
                       ul_sessionId = or_null (ru_sessionId params),
                       ul_messageId = or_null (ru_messageId params),
                       ul_provider = ru_provider params,
                       ul_model = ru_model params,
                       ul_usageJson = ru_usage params,
                       ul_credits = ru_credits params,
                       ul_costUsd = ru_costUsd params,
                       ul_source = ru_source params,
                       ul_status = Pending,
                       ul_idempotencyKey = Some (ru_idempotencyKey params),
                       ul_createdAt = now\<rparr>
          in (db\<lparr>usageLedger := usageLedger db @ [entry]\<rparr>, Inr entry))"

definition updateUsageStatus :: "database \<Rightarrow> string \<Rightarrow> UsageStatus \<Rightarrow> database" where
  "updateUsageStatus db entryId status =
     db\<lparr>usageLedger :=
          map (\<lambda>e. if ul_id e = entryId then e\<lparr>ul_status := status\<rparr> else e) (usageLedger db)\<rparr>"

section \<open>BillingService (src/services/billing/index.ts)\<close>

text \<open>
  The service holds no reference to the database: its balance read and its usage
  recording are the hard-coded stand-ins the source marks as temporary (\<open>Mock por
  ahora\<close>), with the calls to the model classes commented out. The fields of
  \<open>WalletSummary\<close> that are texts or floating-point values (\<open>lowBalanceWarning\<close>,
  \<open>estimatedUSD\<close>, \<open>expirationWarnings\<close>) and the text of \<open>message\<close> are left out;
  \<open>ac_hasMessage\<close> records whether \<open>message\<close> is set. Nothing in the bodies of
  \<open>getWalletBalance\<close> and \<open>canUserAfford\<close> throws, so their \<open>catch\<close> blocks have no
  branch in the model.
\<close>

definition DEFAULT_RESET_DAY :: nat where
  "DEFAULT_RESET_DAY = 1"

definition PRE_CHECK_BUFFER_MULTIPLIER :: rat where
  "PRE_CHECK_BUFFER_MULTIPLIER = 12 / 10"

definition LOW_BALANCE_THRESHOLD :: int where
  "LOW_BALANCE_THRESHOLD = 1000"

datatype billing_error =
  SvcInsufficientCreditsError (svc_available: int) (svc_required: int)
| SvcIdempotencyError string string
| InvalidUsageDataError
| BillingError string

record WalletSummary = WalletBalance +
  nextResetDate :: "Date option"
  isLowBalance :: bool

record Breakdown =
  bd_free :: int
  bd_subscription :: int
  bd_package :: int

record AffordabilityCheck =
  ac_canAfford :: bool
  ac_available :: int
  ac_required :: int
  ac_breakdown :: Breakdown
  ac_hasMessage :: bool

definition calculateNextResetDate :: "Date \<Rightarrow> Date" where
  "calculateNextResetDate now =
     (if month now = 11 then Date (year now + 1) 0 DEFAULT_RESET_DAY 0
      else Date (year now) (month now + 1) DEFAULT_RESET_DAY 0)"

definition getWalletBalance :: "Date \<Rightarrow> string \<Rightarrow> WalletSummary" where
  "getWalletBalance now uid =
     \<lparr>userId = uid,
      freeCredits = 100000,
      subscriptionCredits = 0,
      packageCredits = 0,
      totalCredits = 100000,
      freeResetAt = Some (calculateNextResetDate now),
      subscriptionPeriodEnd = None,
      updatedAt = now,
      nextResetDate = Some (calculateNextResetDate now),
      isLowBalance = ((100000::int) < LOW_BALANCE_THRESHOLD)\<rparr>"

text \<open>
  \<open>Math.ceil(estimatedCredits * 1.2)\<close> on an integer number of credits is modelled
  by the ceiling of the exact product with \<open>12 / 10\<close>.
\<close>

definition canUserAfford :: "Date \<Rightarrow> string \<Rightarrow> int \<Rightarrow> AffordabilityCheck" where
  "canUserAfford now uid estimatedCredits =
     (let req = \<lceil>of_int estimatedCredits * PRE_CHECK_BUFFER_MULTIPLIER\<rceil>;
          balance = getWalletBalance now uid;
          afford = (totalCredits balance \<ge> req)
      in \<lparr>ac_canAfford = afford,
          ac_available = totalCredits balance,
          ac_required = req,
          ac_breakdown = \<lparr>bd_free = freeCredits balance,
                          bd_subscription = subscriptionCredits balance,
                          bd_package = packageCredits balance\<rparr>,
          ac_hasMessage = (\<not> afford)\<rparr>)"






section \<open>Invariants and sequences of calls\<close>

text \<open>
  The invariant of a \<open>WalletBalance\<close> row: the total is the sum of the three buckets
  and no bucket is negative.
\<close>

definition wallet_inv :: "WalletBalance \<Rightarrow> bool" where
  "wallet_inv w \<longleftrightarrow>
     totalCredits w = freeCredits w + subscriptionCredits w + packageCredits w \<and>
     0 \<le> freeCredits w \<and> 0 \<le> subscriptionCredits w \<and> 0 \<le> packageCredits w"

definition wallets_ok :: "database \<Rightarrow> bool" where
  "wallets_ok db \<longleftrightarrow> (\<forall>uid w. walletBalances db uid = Some w \<longrightarrow> wallet_inv w)"

text \<open>The calls of \<open>WalletModel\<close> that write the wallet table.\<close>

datatype operation =
  GetOrCreateWallet string
| GrantCredits string int CreditSource CreditReason GrantMetadata
| DeductCredits string int "CreditSource option"
| ResetFreeCredits string "int option"

fun apply_call :: "database \<Rightarrow> Date \<Rightarrow> string \<Rightarrow> string \<Rightarrow> operation \<Rightarrow> database" where
  "apply_call db now gid gid' (GetOrCreateWallet uid) = fst (getOrCreateWallet db now gid uid)"
| "apply_call db now gid gid' (GrantCredits uid credits src reason metadata) =
     grantCredits db now gid gid' uid credits src reason metadata"
| "apply_call db now gid gid' (DeductCredits uid credits src) =
     fst (deductCredits db now uid credits src)"
| "apply_call db now gid gid' (ResetFreeCredits uid amountOpt) =
     resetFreeCredits db now gid gid' uid amountOpt"

text \<open>A call comes with the time and the two fresh ids it may consume.\<close>

type_synonym call = "Date \<times> string \<times> string \<times> operation"

fun run :: "database \<Rightarrow> call list \<Rightarrow> database" where
  "run db [] = db"
| "run db ((now, gid, gid', opn) # calls) = run (apply_call db now gid gid' opn) calls"

fun positive_amount :: "operation \<Rightarrow> bool" where
  "positive_amount (GetOrCreateWallet uid) = True"
| "positive_amount (GrantCredits uid credits src reason metadata) = (0 < credits)"
| "positive_amount (DeductCredits uid credits src) = (0 < credits)"
| "positive_amount (ResetFreeCredits uid amountOpt) =
     (case amountOpt of None \<Rightarrow> True | Some amount \<Rightarrow> 0 < amount)"

definition positive_call :: "call \<Rightarrow> bool" where
  "positive_call c = positive_amount (snd (snd (snd c)))"

fun creates_or_grants :: "operation \<Rightarrow> bool" where
  "creates_or_grants (GetOrCreateWallet uid) = True"
| "creates_or_grants (GrantCredits uid credits src reason metadata) = True"
| "creates_or_grants (DeductCredits uid credits src) = False"
| "creates_or_grants (ResetFreeCredits uid amountOpt) = False"

definition grant_call :: "call \<Rightarrow> bool" where
  "grant_call c = creates_or_grants (snd (snd (snd c)))"

text \<open>
  Conservation for one user: the wallet total against the grants of the user minus
  the ledger entries of the user with status \<open>completed\<close>. A user without a wallet
  row owns nothing.
\<close>

definition sumCompletedUsage :: "database \<Rightarrow> string \<Rightarrow> int" where
  "sumCompletedUsage db uid =
     sum_list (map ul_credits
       (filter (\<lambda>e. ul_userId e = uid \<and> ul_status e = Completed) (usageLedger db)))"

definition conservation :: "database \<Rightarrow> string \<Rightarrow> bool" where
  "conservation db uid =
     (case walletBalances db uid of
        None \<Rightarrow> sumGrants db uid - sumCompletedUsage db uid = 0
      | Some w \<Rightarrow> totalCredits w = sumGrants db uid - sumCompletedUsage db uid)"

text \<open>Every wallet row has the total its three buckets add up to.\<close>

definition totals_consistent :: "database \<Rightarrow> bool" where
  "totals_consistent db \<longleftrightarrow>
     (\<forall>uid w. walletBalances db uid = Some w \<longrightarrow>
        totalCredits w = freeCredits w + subscriptionCredits w + packageCredits w)"

section \<open>Basic facts about the table operations\<close>

lemma walletBalances_createCreditGrant [simp]:
  "walletBalances (createCreditGrant db now gid p) = walletBalances db"
  by (simp add: createCreditGrant_def)

lemma sumGrants_createCreditGrant [simp]:
  "sumGrants (createCreditGrant db now gid p) uid =
     sumGrants db uid + (if gp_userId p = uid then gp_credits p else 0)"
  by (simp add: sumGrants_def createCreditGrant_def)

lemma sumCompletedUsage_createCreditGrant [simp]:
  "sumCompletedUsage (createCreditGrant db now gid p) uid = sumCompletedUsage db uid"
  by (simp add: sumCompletedUsage_def createCreditGrant_def)

lemma sumGrants_walletBalances_update [simp]:
  "sumGrants (db\<lparr>walletBalances := m\<rparr>) uid = sumGrants db uid"
  by (simp add: sumGrants_def)

lemma sumCompletedUsage_walletBalances_update [simp]:
  "sumCompletedUsage (db\<lparr>walletBalances := m\<rparr>) uid = sumCompletedUsage db uid"
  by (simp add: sumCompletedUsage_def)

lemma wallets_ok_createCreditGrant [simp]:
  "wallets_ok (createCreditGrant db now gid p) = wallets_ok db"
  by (simp add: wallets_ok_def)

lemma wallets_ok_update:
  "wallets_ok db \<Longrightarrow> wallet_inv w \<Longrightarrow>
   wallets_ok (db\<lparr>walletBalances := (walletBalances db)(uid \<mapsto> w)\<rparr>)"
  by (simp add: wallets_ok_def)

lemma wallets_ok_empty: "wallets_ok empty_db"
  by (simp add: wallets_ok_def empty_db_def)

lemma getOrCreateWallet_facts:
  assumes g: "getOrCreateWallet db now gid uid = (db1, w)"
  shows "walletBalances db1 = (walletBalances db)(uid \<mapsto> w)"
    and "sumGrants db1 u =
           sumGrants db u + (if walletBalances db uid = None \<and> u = uid then 100000 else 0)"
    and "sumCompletedUsage db1 u = sumCompletedUsage db u"
    and "totalCredits w =
           (case walletBalances db uid of None \<Rightarrow> 100000 | Some w' \<Rightarrow> totalCredits w')"
  using g
  by (auto simp: getOrCreateWallet_def Let_def split: option.splits)

lemma getOrCreateWallet_inv:
  assumes "wallets_ok db" and "getOrCreateWallet db now gid uid = (db1, w)"
  shows "wallets_ok db1 \<and> wallet_inv w \<and> walletBalances db1 uid = Some w"
  using assms
  by (auto simp: getOrCreateWallet_def Let_def wallets_ok_def wallet_inv_def
      split: option.splits if_splits)

text \<open>
  What \<open>grantCredits\<close> writes, once the wallet read is known: the bucket of the source
  grows by \<open>credits\<close> and the total is recomputed from the three buckets.
\<close>

lemma grantCredits_unfold:
  assumes g: "getOrCreateWallet (createCreditGrant db now gid
        \<lparr>gp_userId = uid, gp_source = src, gp_credits = credits,
         gp_reason = reason, gp_expiresAt = expiresAt md,
         gp_mpPaymentId = mpPaymentId md,
         gp_mpPreferenceId = mpPreferenceId md\<rparr>) now gid' uid = (db2, w)"
  shows "grantCredits db now gid gid' uid credits src reason md =
           db2\<lparr>walletBalances := (walletBalances db2)(uid \<mapsto>
             w\<lparr>updatedAt := now,
                freeCredits := freeCredits w + (if src = Free then credits else 0),
                subscriptionCredits :=
                  subscriptionCredits w + (if src = Subscription then credits else 0),
                packageCredits :=
                  packageCredits w + (if src = Package \<or> src = Promo then credits else 0),
                totalCredits :=
                  freeCredits w + subscriptionCredits w + packageCredits w + credits,
                subscriptionPeriodEnd :=
                  (if src = Subscription
                   then (case expiresAt md of None \<Rightarrow> subscriptionPeriodEnd w | Some d \<Rightarrow> Some d)
                   else subscriptionPeriodEnd w)\<rparr>)\<rparr>"
  using g
  by (cases src)
     (simp_all add: grantCredits_def Let_def applyUpdates_def nullish_def ac_simps
        split: option.splits)



section \<open>deductCredits\<close>

text \<open>The three steps of the automatic order on a well-formed wallet that can pay.\<close>

lemma deductAuto_greedy:
  assumes inv: "wallet_inv w" and pos: "0 < credits" and le: "credits \<le> totalCredits w"
  shows "deductFreeStep w (deductSubscriptionStep w (deductPackageStep w
           \<lparr>remainingToDeduct = credits, deductedFrom = None,
            newPackageCredits = packageCredits w,
            newSubscriptionCredits = subscriptionCredits w,
            newFreeCredits = freeCredits w\<rparr>)) =
         (let fromPackage = min (packageCredits w) credits;
              fromSubscription = min (subscriptionCredits w) (credits - fromPackage);
              fromFree = min (freeCredits w) (credits - fromPackage - fromSubscription)
          in \<lparr>remainingToDeduct = 0,
              deductedFrom = Some (if 0 < fromFree then Free
                                   else if 0 < fromSubscription then Subscription
                                   else Package),
              newPackageCredits = packageCredits w - fromPackage,
              newSubscriptionCredits = subscriptionCredits w - fromSubscription,
              newFreeCredits = freeCredits w - fromFree\<rparr>)"
  using assms
  by (auto simp: wallet_inv_def deductFreeStep_def deductSubscriptionStep_def
        deductPackageStep_def Let_def min_def)

text \<open>
  Claim C1. On a wallet row that satisfies the \<open>WalletBalance\<close> invariant, a deduction
  of a positive amount not exceeding the total, called without a preferred source,
  succeeds and drains the buckets in the order package, subscription, free: each
  bucket is reduced by the minimum of its balance and the amount still owed. The new
  total is the old total minus the amount, and the reported source is the last
  bucket drawn from.
\<close>

theorem deductCredits_priority_order:
  assumes row: "walletBalances db uid = Some w"
    and inv: "wallet_inv w"
    and pos: "0 < credits"
    and le: "credits \<le> totalCredits w"
  shows "deductCredits db now uid credits None =
     (let fromPackage = min (packageCredits w) credits;
          fromSubscription = min (subscriptionCredits w) (credits - fromPackage);
          fromFree = min (freeCredits w) (credits - fromPackage - fromSubscription)
      in (db\<lparr>walletBalances := (walletBalances db)(uid \<mapsto>
               w\<lparr>packageCredits := packageCredits w - fromPackage,
                  subscriptionCredits := subscriptionCredits w - fromSubscription,
                  freeCredits := freeCredits w - fromFree,
                  totalCredits := totalCredits w - credits,
                  updatedAt := now\<rparr>)\<rparr>,
          Inr \<lparr>source = Some (if 0 < fromFree then Free
                               else if 0 < fromSubscription then Subscription
                               else Package),
               remainingCredits = totalCredits w - credits\<rparr>))"
proof -
  have tot: "packageCredits w - min (packageCredits w) credits
      + (subscriptionCredits w - min (subscriptionCredits w) (credits - min (packageCredits w) credits))
      + (freeCredits w - min (freeCredits w) (credits - min (packageCredits w) credits
            - min (subscriptionCredits w) (credits - min (packageCredits w) credits)))
      = totalCredits w - credits"
    using inv pos le by (auto simp: wallet_inv_def min_def)
  show ?thesis
    using row le tot
    by (simp add: deductCredits_def deductAuto_greedy[OF inv pos le] Let_def)
qed

text \<open>
  The example of the specification: package 50, subscription 30, free 100 and a
  deduction of 70 leave package 0, subscription 10 and free 100.
\<close>

theorem deductCredits_priority_order_witness:
  "wallet_inv \<lparr>userId = ''u1'', freeCredits = 100, subscriptionCredits = 30,
               packageCredits = 50, totalCredits = 180, freeResetAt = None,
               subscriptionPeriodEnd = None, updatedAt = Date 2025 0 1 0\<rparr> \<and>
   deductCredits
     (empty_db\<lparr>walletBalances := [''u1'' \<mapsto>
        \<lparr>userId = ''u1'', freeCredits = 100, subscriptionCredits = 30,
         packageCredits = 50, totalCredits = 180, freeResetAt = None,
         subscriptionPeriodEnd = None, updatedAt = Date 2025 0 1 0\<rparr>]\<rparr>)
     (Date 2025 0 15 0) ''u1'' 70 None =
   (empty_db\<lparr>walletBalances := [''u1'' \<mapsto>
        \<lparr>userId = ''u1'', freeCredits = 100, subscriptionCredits = 10,
         packageCredits = 0, totalCredits = 110, freeResetAt = None,
         subscriptionPeriodEnd = None, updatedAt = Date 2025 0 15 0\<rparr>]\<rparr>,
    Inr \<lparr>source = Some Subscription, remainingCredits = 110\<rparr>)"
proof -
  let ?w = "\<lparr>userId = ''u1'', freeCredits = 100, subscriptionCredits = 30,
               packageCredits = 50, totalCredits = 180, freeResetAt = None,
               subscriptionPeriodEnd = None, updatedAt = Date 2025 0 1 0\<rparr>"
  let ?db = "empty_db\<lparr>walletBalances := [''u1'' \<mapsto> ?w]\<rparr>"
  have row: "walletBalances ?db ''u1'' = Some ?w" by simp
  have inv: "wallet_inv ?w" by (simp add: wallet_inv_def)
  have pos: "(0::int) < 70" by simp
  have le: "70 \<le> totalCredits ?w" by simp
  show ?thesis
    using deductCredits_priority_order[OF row inv pos le, of "Date 2025 0 15 0"] inv
    by simp
qed

text \<open>
  Claim C2. On a wallet row whose buckets are not negative and add up to less than
  the requested amount, \<open>deductCredits\<close> (with or without a preferred source) throws
  \<open>InsufficientCreditsError\<close> with \<open>required\<close> the requested amount and \<open>available\<close>
  the total of the row, and the database it leaves is the database it found.
\<close>

theorem deductCredits_insufficient:
  assumes row: "walletBalances db uid = Some w"
    and nonneg: "0 \<le> freeCredits w" "0 \<le> subscriptionCredits w" "0 \<le> packageCredits w"
    and short: "freeCredits w + subscriptionCredits w + packageCredits w < credits"
  shows "deductCredits db now uid credits src =
           (db, Inl (InsufficientCreditsError credits (totalCredits w)))"
proof (cases src)
  case None
  then show ?thesis using assms
    by (auto simp: deductCredits_def deductFreeStep_def deductSubscriptionStep_def
        deductPackageStep_def Let_def min_def)
next
  case (Some s)
  then show ?thesis using assms
    by (cases s) (auto simp: deductCredits_def Let_def)
qed

text \<open>The example of the specification: total 100, request 150.\<close>

theorem deductCredits_insufficient_witness:
  "deductCredits
     (empty_db\<lparr>walletBalances := [''u1'' \<mapsto>
        \<lparr>userId = ''u1'', freeCredits = 100, subscriptionCredits = 0,
         packageCredits = 0, totalCredits = 100, freeResetAt = None,
         subscriptionPeriodEnd = None, updatedAt = Date 2025 0 1 0\<rparr>]\<rparr>)
     (Date 2025 0 15 0) ''u1'' 150 None =
   (empty_db\<lparr>walletBalances := [''u1'' \<mapsto>
        \<lparr>userId = ''u1'', freeCredits = 100, subscriptionCredits = 0,
         packageCredits = 0, totalCredits = 100, freeResetAt = None,
         subscriptionPeriodEnd = None, updatedAt = Date 2025 0 1 0\<rparr>]\<rparr>,
    Inl (InsufficientCreditsError 150 100))"
proof -
  let ?w = "\<lparr>userId = ''u1'', freeCredits = 100, subscriptionCredits = 0,
         packageCredits = 0, totalCredits = 100, freeResetAt = None,
         subscriptionPeriodEnd = None, updatedAt = Date 2025 0 1 0\<rparr>"
  let ?db = "empty_db\<lparr>walletBalances := [''u1'' \<mapsto> ?w]\<rparr>"
  have row: "walletBalances ?db ''u1'' = Some ?w" by simp
  have short: "freeCredits ?w + subscriptionCredits ?w + packageCredits ?w < 150" by simp
  show ?thesis
    using deductCredits_insufficient[OF row _ _ _ short, of "Date 2025 0 15 0" None]
    by simp
qed

text \<open>
  Claim C9. With preferred source \<open>'promo'\<close> and a positive amount, \<open>deductCredits\<close>
  throws \<open>InsufficientCreditsError\<close> on every database, whatever the buckets hold,
  and changes nothing: the \<open>switch\<close> has no \<open>'promo'\<close> case, so the whole amount is
  still owed when the final check runs.
\<close>

theorem deductCredits_promo_throws:
  assumes pos: "0 < credits"
  shows "deductCredits db now uid credits (Some Promo) =
           (db, Inl (InsufficientCreditsError credits
                  (case walletBalances db uid of None \<Rightarrow> 0 | Some w \<Rightarrow> totalCredits w)))"
  using pos by (simp add: deductCredits_def Let_def split: option.splits)

text \<open>A wallet that could pay 70 from its buckets, asked to pay from \<open>'promo'\<close>.\<close>

theorem deductCredits_promo_throws_witness:
  "deductCredits
     (empty_db\<lparr>walletBalances := [''u1'' \<mapsto>
        \<lparr>userId = ''u1'', freeCredits = 100, subscriptionCredits = 30,
         packageCredits = 50, totalCredits = 180, freeResetAt = None,
         subscriptionPeriodEnd = None, updatedAt = Date 2025 0 1 0\<rparr>]\<rparr>)
     (Date 2025 0 15 0) ''u1'' 70 (Some Promo) =
   (empty_db\<lparr>walletBalances := [''u1'' \<mapsto>
        \<lparr>userId = ''u1'', freeCredits = 100, subscriptionCredits = 30,
         packageCredits = 50, totalCredits = 180, freeResetAt = None,
         subscriptionPeriodEnd = None, updatedAt = Date 2025 0 1 0\<rparr>]\<rparr>,
    Inl (InsufficientCreditsError 70 180))"
proof -
  have pos: "(0::int) < 70" by simp
  show ?thesis
    using deductCredits_promo_throws[OF pos, of _ "Date 2025 0 15 0" "''u1''"]
    by simp
qed

section \<open>grantCredits\<close>

text \<open>
  Claim C10. A grant with source \<open>'promo'\<close> leaves the wallet table exactly as the same
  grant with source \<open>'package'\<close> does: it adds the credits to \<open>packageCredits\<close> of the
  row \<open>getOrCreateWallet\<close> returns and recomputes the total from the three buckets.
  A \<open>WalletBalance\<close> row has no fourth bucket.
\<close>

theorem grantCredits_promo_as_package:
  "walletBalances (grantCredits db now gid gid' uid credits Promo reason md) =
   walletBalances (grantCredits db now gid gid' uid credits Package reason md) \<and>
   (let w0 = snd (getOrCreateWallet db now gid' uid)
    in walletBalances (grantCredits db now gid gid' uid credits Promo reason md) uid =
         Some (w0\<lparr>updatedAt := now,
                   packageCredits := packageCredits w0 + credits,
                   totalCredits := freeCredits w0 + subscriptionCredits w0 +
                                   (packageCredits w0 + credits)\<rparr>))"
  by (simp add: grantCredits_def getOrCreateWallet_def createCreditGrant_def applyUpdates_def
      nullish_def Let_def split: option.splits)

text \<open>A promotional grant of 25 on a wallet holding 50 package credits.\<close>

theorem grantCredits_promo_as_package_witness:
  "walletBalances
     (grantCredits
        (empty_db\<lparr>walletBalances := [''u1'' \<mapsto>
           \<lparr>userId = ''u1'', freeCredits = 100, subscriptionCredits = 30,
            packageCredits = 50, totalCredits = 180, freeResetAt = None,
            subscriptionPeriodEnd = None, updatedAt = Date 2025 0 1 0\<rparr>]\<rparr>)
        (Date 2025 0 15 0) ''g1'' ''g2'' ''u1'' 25 Promo PromoReason
        \<lparr>expiresAt = None, mpPaymentId = None, mpPreferenceId = None\<rparr>) ''u1'' =
   Some \<lparr>userId = ''u1'', freeCredits = 100, subscriptionCredits = 30,
         packageCredits = 75, totalCredits = 205, freeResetAt = None,
         subscriptionPeriodEnd = None, updatedAt = Date 2025 0 15 0\<rparr>"
proof -
  note both = grantCredits_promo_as_package
    [of "empty_db\<lparr>walletBalances := [''u1'' \<mapsto>
           \<lparr>userId = ''u1'', freeCredits = 100, subscriptionCredits = 30,
            packageCredits = 50, totalCredits = 180, freeResetAt = None,
            subscriptionPeriodEnd = None, updatedAt = Date 2025 0 1 0\<rparr>]\<rparr>"
        "Date 2025 0 15 0" "''g1''" "''g2''" "''u1''" 25 PromoReason
        "\<lparr>expiresAt = None, mpPaymentId = None, mpPreferenceId = None\<rparr>"]
  from conjunct2[OF both] show ?thesis
    by (simp add: getOrCreateWallet_def Let_def)
qed




section \<open>reconcileBalance\<close>

text \<open>The usage total of \<open>reconcileBalance\<close> counts the entries of every status.\<close>

lemma sumUsage_by_status:
  "sumUsage db uid =
     sum_list (map ul_credits
       (filter (\<lambda>e. ul_userId e = uid \<and> ul_status e = Pending) (usageLedger db))) +
     sumCompletedUsage db uid +
     sum_list (map ul_credits
       (filter (\<lambda>e. ul_userId e = uid \<and> ul_status e = Refunded) (usageLedger db)))"
proof -
  have "sum_list (map ul_credits (filter (\<lambda>e. ul_userId e = uid) xs)) =
     sum_list (map ul_credits (filter (\<lambda>e. ul_userId e = uid \<and> ul_status e = Pending) xs)) +
     sum_list (map ul_credits (filter (\<lambda>e. ul_userId e = uid \<and> ul_status e = Completed) xs)) +
     sum_list (map ul_credits (filter (\<lambda>e. ul_userId e = uid \<and> ul_status e = Refunded) xs))"
    for xs
  proof (induction xs)
    case Nil
    then show ?case by simp
  next
    case (Cons x xs)
    then show ?case by (cases "ul_status x") auto
  qed
  then show ?thesis by (simp add: sumUsage_def sumCompletedUsage_def)
qed


text \<open>
  Claim C7, as the code has it. \<open>reconcileBalance\<close> recomputes the balance as the sum of
  all credit grants of the user minus the sum of the credits of all usage-ledger
  entries of the user, whatever their status, and reports \<open>needsAdjustment\<close> exactly
  when the absolute difference from the wallet total exceeds 1 percent of the wallet
  total; the balance is consistent exactly when 100 times the difference is at most
  the wallet total. The sums are taken after the wallet read, which creates the
  wallet and its first grant when the user has none.
\<close>

theorem reconcileBalance_computation:
  "(case reconcileBalance db now gid uid of
      (db1, r) \<Rightarrow>
        db1 = fst (getOrCreateWallet db now gid uid) \<and>
        walletTotal r = totalCredits (snd (getOrCreateWallet db now gid uid)) \<and>
        calculatedTotal r = sumGrants db1 uid - sumUsage db1 uid \<and>
        difference r = \<bar>walletTotal r - calculatedTotal r\<bar> \<and>
        needsAdjustment r = (walletTotal r < 100 * difference r))"
proof -
  have thr: "(rat_of_int t < \<bar>rat_of_int t - (rat_of_int a - rat_of_int b)\<bar> * 100) =
             (t < 100 * \<bar>t - (a - b)\<bar>)" for t a b :: int
  proof -
    have "\<bar>rat_of_int t - (rat_of_int a - rat_of_int b)\<bar> * 100 =
          rat_of_int (100 * \<bar>t - (a - b)\<bar>)"
      by simp
    then show ?thesis by (simp only: of_int_less_iff)
  qed
  show ?thesis
    by (simp add: reconcileBalance_def Let_def thr split: prod.splits)
qed

text \<open>One completed entry of 500 against a grant of 100000: within the threshold.\<close>

theorem reconcileBalance_computation_witness:
  "(case reconcileBalance
      \<lparr>walletBalances = [''u1'' \<mapsto>
          \<lparr>userId = ''u1'', freeCredits = 100000, subscriptionCredits = 0,
           packageCredits = 0, totalCredits = 100000, freeResetAt = None,
           subscriptionPeriodEnd = None, updatedAt = Date 2025 0 1 0\<rparr>],
       creditGrants =
         [\<lparr>cg_id = ''g1'', cg_userId = ''u1'', cg_source = Free, cg_credits = 100000,
           cg_reason = MonthlyFree, cg_expiresAt = None, cg_mpPaymentId = None,
           cg_mpPreferenceId = None, cg_createdAt = Date 2025 0 1 0\<rparr>],
       usageLedger =
         [\<lparr>ul_id = ''e1'', ul_userId = ''u1'', ul_sessionId = None, ul_messageId = None,
           ul_provider = ''openai'', ul_model = ''gpt-4'', ul_usageJson = [],
           ul_credits = 500, ul_costUsd = 0, ul_source = UsageFree, ul_status = Completed,
           ul_idempotencyKey = Some ''k1'', ul_createdAt = Date 2025 0 2 0\<rparr>]\<rparr>
      (Date 2025 0 15 0) ''g2'' ''u1'' of
      (db1, r) \<Rightarrow>
        walletTotal r = 100000 \<and> calculatedTotal r = 99500 \<and> difference r = 500 \<and>
        needsAdjustment r = False)"
  using reconcileBalance_computation
    [of "\<lparr>walletBalances = [''u1'' \<mapsto>
          \<lparr>userId = ''u1'', freeCredits = 100000, subscriptionCredits = 0,
           packageCredits = 0, totalCredits = 100000, freeResetAt = None,
           subscriptionPeriodEnd = None, updatedAt = Date 2025 0 1 0\<rparr>],
       creditGrants =
         [\<lparr>cg_id = ''g1'', cg_userId = ''u1'', cg_source = Free, cg_credits = 100000,
           cg_reason = MonthlyFree, cg_expiresAt = None, cg_mpPaymentId = None,
           cg_mpPreferenceId = None, cg_createdAt = Date 2025 0 1 0\<rparr>],
       usageLedger =
         [\<lparr>ul_id = ''e1'', ul_userId = ''u1'', ul_sessionId = None, ul_messageId = None,
           ul_provider = ''openai'', ul_model = ''gpt-4'', ul_usageJson = [],
           ul_credits = 500, ul_costUsd = 0, ul_source = UsageFree, ul_status = Completed,
           ul_idempotencyKey = Some ''k1'', ul_createdAt = Date 2025 0 2 0\<rparr>]\<rparr>"
        "Date 2025 0 15 0" "''g2''" "''u1''"]
  by (auto simp: getOrCreateWallet_def sumGrants_def sumUsage_def split: prod.splits)

text \<open>
  Claim C7 as stated (usage restricted to completed entries) fails: with one grant of
  100000, a wallet total of 100000 and one pending entry of 5000, grants minus
  completed usage is 100000, equal to the wallet total, while \<open>reconcileBalance\<close>
  computes 95000 and reports that an adjustment is needed.
\<close>

theorem reconcileBalance_counterexample:
  "sumGrants
      \<lparr>walletBalances = [''u1'' \<mapsto>
          \<lparr>userId = ''u1'', freeCredits = 100000, subscriptionCredits = 0,
           packageCredits = 0, totalCredits = 100000, freeResetAt = None,
           subscriptionPeriodEnd = None, updatedAt = Date 2025 0 1 0\<rparr>],
       creditGrants =
         [\<lparr>cg_id = ''g1'', cg_userId = ''u1'', cg_source = Free, cg_credits = 100000,
           cg_reason = MonthlyFree, cg_expiresAt = None, cg_mpPaymentId = None,
           cg_mpPreferenceId = None, cg_createdAt = Date 2025 0 1 0\<rparr>],
       usageLedger =
         [\<lparr>ul_id = ''e1'', ul_userId = ''u1'', ul_sessionId = None, ul_messageId = None,
           ul_provider = ''openai'', ul_model = ''gpt-4'', ul_usageJson = [],
           ul_credits = 5000, ul_costUsd = 0, ul_source = UsageFree, ul_status = Pending,
           ul_idempotencyKey = Some ''k1'', ul_createdAt = Date 2025 0 2 0\<rparr>]\<rparr> ''u1'' -
   sumCompletedUsage
      \<lparr>walletBalances = [''u1'' \<mapsto>
          \<lparr>userId = ''u1'', freeCredits = 100000, subscriptionCredits = 0,
           packageCredits = 0, totalCredits = 100000, freeResetAt = None,
           subscriptionPeriodEnd = None, updatedAt = Date 2025 0 1 0\<rparr>],
       creditGrants =
         [\<lparr>cg_id = ''g1'', cg_userId = ''u1'', cg_source = Free, cg_credits = 100000,
           cg_reason = MonthlyFree, cg_expiresAt = None, cg_mpPaymentId = None,
           cg_mpPreferenceId = None, cg_createdAt = Date 2025 0 1 0\<rparr>],
       usageLedger =
         [\<lparr>ul_id = ''e1'', ul_userId = ''u1'', ul_sessionId = None, ul_messageId = None,
           ul_provider = ''openai'', ul_model = ''gpt-4'', ul_usageJson = [],
           ul_credits = 5000, ul_costUsd = 0, ul_source = UsageFree, ul_status = Pending,
           ul_idempotencyKey = Some ''k1'', ul_createdAt = Date 2025 0 2 0\<rparr>]\<rparr> ''u1''
     = 100000 \<and>
   snd (reconcileBalance
      \<lparr>walletBalances = [''u1'' \<mapsto>
          \<lparr>userId = ''u1'', freeCredits = 100000, subscriptionCredits = 0,
           packageCredits = 0, totalCredits = 100000, freeResetAt = None,
           subscriptionPeriodEnd = None, updatedAt = Date 2025 0 1 0\<rparr>],
       creditGrants =
         [\<lparr>cg_id = ''g1'', cg_userId = ''u1'', cg_source = Free, cg_credits = 100000,
           cg_reason = MonthlyFree, cg_expiresAt = None, cg_mpPaymentId = None,
           cg_mpPreferenceId = None, cg_createdAt = Date 2025 0 1 0\<rparr>],
       usageLedger =
         [\<lparr>ul_id = ''e1'', ul_userId = ''u1'', ul_sessionId = None, ul_messageId = None,
           ul_provider = ''openai'', ul_model = ''gpt-4'', ul_usageJson = [],
           ul_credits = 5000, ul_costUsd = 0, ul_source = UsageFree, ul_status = Pending,
           ul_idempotencyKey = Some ''k1'', ul_createdAt = Date 2025 0 2 0\<rparr>]\<rparr>
      (Date 2025 0 15 0) ''g2'' ''u1'') =
     \<lparr>walletTotal = 100000, calculatedTotal = 95000, difference = 5000,
      needsAdjustment = True\<rparr>"
  by (simp add: reconcileBalance_def getOrCreateWallet_def sumGrants_def sumUsage_def
      sumCompletedUsage_def Let_def)

section \<open>The affordability check of the service\<close>

text \<open>
  The buffer arithmetic of \<open>canUserAfford\<close> and the comparison are as the interface
  describes them, and \<open>WalletModel.canAfford\<close> compares the stored total with the amount
  it is given.
\<close>

lemma canUserAfford_buffer:
  "ac_required (canUserAfford now uid est) = \<lceil>of_int est * (12 / 10 :: rat)\<rceil> \<and>
   ac_available (canUserAfford now uid est) = 100000 \<and>
   ac_canAfford (canUserAfford now uid est) =
     (ac_required (canUserAfford now uid est) \<le> ac_available (canUserAfford now uid est))"
  by (simp add: canUserAfford_def getWalletBalance_def PRE_CHECK_BUFFER_MULTIPLIER_def Let_def)

lemma canAfford_existing_wallet:
  "walletBalances db uid = Some w \<Longrightarrow>
   canAfford db now gid uid est = (db, est \<le> totalCredits w)"
  by (simp add: canAfford_def getOrCreateWallet_def)

text \<open>
  Claim C6. \<open>canUserAfford\<close> computes \<open>required\<close> as the ceiling of the estimate times
  1.2, but compares it with the balance \<open>getWalletBalance\<close> returns, which is the fixed
  100000 of the stand-in and not the stored wallet. For an estimate of 1000 it
  answers \<open>canAfford = true\<close> with \<open>available = 100000\<close> for every user, also for one
  whose stored total is 1100, where \<open>WalletModel.canAfford\<close> with the required 1200
  answers false.
\<close>

theorem canUserAfford_fixed_balance:
  "ac_required (canUserAfford now uid 1000) = 1200 \<and>
   ac_available (canUserAfford now uid 1000) = 100000 \<and>
   ac_canAfford (canUserAfford now uid 1000) = True \<and>
   snd (canAfford
     (empty_db\<lparr>walletBalances := [''u1'' \<mapsto>
        \<lparr>userId = ''u1'', freeCredits = 0, subscriptionCredits = 0,
         packageCredits = 1100, totalCredits = 1100, freeResetAt = None,
         subscriptionPeriodEnd = None, updatedAt = Date 2025 0 1 0\<rparr>]\<rparr>)
     now gid ''u1'' 1200) = False"
  by (simp add: canUserAfford_def getWalletBalance_def PRE_CHECK_BUFFER_MULTIPLIER_def Let_def
      canAfford_def getOrCreateWallet_def)

section \<open>Idempotent recording\<close>




section \<open>The wallet invariant\<close>

lemma grantCredits_inv:
  assumes ok: "wallets_ok db" and pos: "0 < credits"
  shows "wallets_ok (grantCredits db now gid gid' uid credits src reason md)"
proof -
  let ?db0 = "createCreditGrant db now gid
        \<lparr>gp_userId = uid, gp_source = src, gp_credits = credits,
         gp_reason = reason, gp_expiresAt = expiresAt md,
         gp_mpPaymentId = mpPaymentId md,
         gp_mpPreferenceId = mpPreferenceId md\<rparr>"
  obtain db2 w where g: "getOrCreateWallet ?db0 now gid' uid = (db2, w)"
    by (cases "getOrCreateWallet ?db0 now gid' uid")
  have "wallets_ok ?db0" using ok by simp
  from getOrCreateWallet_inv[OF this g]
  have ok2: "wallets_ok db2" and inv: "wallet_inv w" by simp_all
  show ?thesis
    unfolding grantCredits_unfold[OF g]
  proof (rule wallets_ok_update[OF ok2])
    show "wallet_inv (w\<lparr>updatedAt := now,
                freeCredits := freeCredits w + (if src = Free then credits else 0),
                subscriptionCredits :=
                  subscriptionCredits w + (if src = Subscription then credits else 0),
                packageCredits :=
                  packageCredits w + (if src = Package \<or> src = Promo then credits else 0),
                totalCredits :=
                  freeCredits w + subscriptionCredits w + packageCredits w + credits,
                subscriptionPeriodEnd :=
                  (if src = Subscription
                   then (case expiresAt md of None \<Rightarrow> subscriptionPeriodEnd w | Some d \<Rightarrow> Some d)
                   else subscriptionPeriodEnd w)\<rparr>)"
      using inv pos by (cases src) (simp_all add: wallet_inv_def)
  qed
qed

lemma resetFreeCredits_inv:
  assumes ok: "wallets_ok db" and pos: "case amountOpt of None \<Rightarrow> True | Some a \<Rightarrow> 0 < a"
  shows "wallets_ok (resetFreeCredits db now gid gid' uid amountOpt)"
proof -
  obtain db1 w where g: "getOrCreateWallet db now gid' uid = (db1, w)"
    by (cases "getOrCreateWallet db now gid' uid")
  from getOrCreateWallet_inv[OF ok g]
  have ok1: "wallets_ok db1" and inv: "wallet_inv w" by simp_all
  have "wallet_inv (w\<lparr>freeCredits := nullish amountOpt 100000,
                      totalCredits := nullish amountOpt 100000 + subscriptionCredits w + packageCredits w,
                      freeResetAt := Some (getNextMonthlyReset now),
                      updatedAt := now\<rparr>)"
    using inv pos by (auto simp: wallet_inv_def nullish_def split: option.splits)
  with ok1 show ?thesis
    by (simp add: resetFreeCredits_def g Let_def wallets_ok_update)
qed

lemma deductPreferred_nonneg:
  assumes "wallet_inv w" and "0 < credits"
    and "st = deductPreferred w s \<lparr>remainingToDeduct = credits, deductedFrom = None,
            newPackageCredits = packageCredits w,
            newSubscriptionCredits = subscriptionCredits w,
            newFreeCredits = freeCredits w\<rparr>"
  shows "0 \<le> newPackageCredits st \<and> 0 \<le> newSubscriptionCredits st \<and> 0 \<le> newFreeCredits st"
  using assms by (cases s) (auto simp: wallet_inv_def)

lemma deductAuto_nonneg:
  assumes "wallet_inv w" and "0 < credits"
    and "st = deductFreeStep w (deductSubscriptionStep w (deductPackageStep w
           \<lparr>remainingToDeduct = credits, deductedFrom = None,
            newPackageCredits = packageCredits w,
            newSubscriptionCredits = subscriptionCredits w,
            newFreeCredits = freeCredits w\<rparr>))"
  shows "0 \<le> newPackageCredits st \<and> 0 \<le> newSubscriptionCredits st \<and> 0 \<le> newFreeCredits st"
  using assms
  by (auto simp: wallet_inv_def deductFreeStep_def deductSubscriptionStep_def
      deductPackageStep_def Let_def min_def)

lemma deductCredits_inv:
  assumes ok: "wallets_ok db" and pos: "0 < credits"
  shows "wallets_ok (fst (deductCredits db now uid credits src))"
proof (cases "walletBalances db uid")
  case None
  then show ?thesis using ok by (simp add: deductCredits_def)
next
  case (Some w)
  with ok have inv: "wallet_inv w" by (simp add: wallets_ok_def)
  define st where "st = (case src of
        Some s \<Rightarrow> deductPreferred w s \<lparr>remainingToDeduct = credits, deductedFrom = None,
            newPackageCredits = packageCredits w,
            newSubscriptionCredits = subscriptionCredits w,
            newFreeCredits = freeCredits w\<rparr>
      | None \<Rightarrow> deductFreeStep w (deductSubscriptionStep w (deductPackageStep w
           \<lparr>remainingToDeduct = credits, deductedFrom = None,
            newPackageCredits = packageCredits w,
            newSubscriptionCredits = subscriptionCredits w,
            newFreeCredits = freeCredits w\<rparr>)))"
  have nn: "0 \<le> newPackageCredits st \<and> 0 \<le> newSubscriptionCredits st \<and> 0 \<le> newFreeCredits st"
    using deductPreferred_nonneg[OF inv pos] deductAuto_nonneg[OF inv pos]
    by (cases src) (simp_all add: st_def)
  then have "wallet_inv (w\<lparr>packageCredits := newPackageCredits st,
                 subscriptionCredits := newSubscriptionCredits st,
                 freeCredits := newFreeCredits st,
                 totalCredits := newPackageCredits st + newSubscriptionCredits st + newFreeCredits st,
                 updatedAt := now\<rparr>)"
    by (simp add: wallet_inv_def)
  then show ?thesis
    using ok Some
    by (simp add: deductCredits_def Let_def st_def[symmetric] wallets_ok_update)
qed

lemma apply_call_inv:
  assumes "wallets_ok db" and "positive_amount opn"
  shows "wallets_ok (apply_call db now gid gid' opn)"
proof (cases opn)
  case (GetOrCreateWallet uid)
  then show ?thesis
    using getOrCreateWallet_inv[OF assms(1), of now gid uid]
    by (cases "getOrCreateWallet db now gid uid") simp
next
  case (GrantCredits uid credits src reason md)
  then show ?thesis using assms by (simp add: grantCredits_inv)
next
  case (DeductCredits uid credits src)
  then show ?thesis using assms by (simp add: deductCredits_inv)
next
  case (ResetFreeCredits uid amountOpt)
  then show ?thesis using assms by (simp add: resetFreeCredits_inv)
qed

lemma run_inv:
  "wallets_ok db \<Longrightarrow> list_all positive_call calls \<Longrightarrow> wallets_ok (run db calls)"
proof (induction calls arbitrary: db)
  case Nil
  then show ?case by simp
next
  case (Cons c calls)
  obtain now gid gid' opn where c: "c = (now, gid, gid', opn)" by (cases c) auto
  from Cons.prems have pc: "positive_call c" and rest: "list_all positive_call calls"
    by simp_all
  from pc have "positive_amount opn"
    by (simp add: c positive_call_def)
  with Cons.prems(1) have "wallets_ok (apply_call db now gid gid' opn)"
    by (simp add: apply_call_inv)
  from Cons.IH[OF this rest] show ?case by (simp add: c)
qed

text \<open>
  Claim C4. Starting from a database whose wallet rows satisfy the invariant (the
  empty database is one), after every call of a sequence of \<open>getOrCreateWallet\<close>,
  \<open>grantCredits\<close>, \<open>deductCredits\<close> and \<open>resetFreeCredits\<close> calls with positive credit
  amounts, every wallet row has a total equal to the sum of its three buckets and no
  negative bucket. \<open>take n calls\<close> is the sequence up to its \<open>n\<close>-th call.
\<close>

theorem wallet_invariant_preserved:
  assumes "wallets_ok db" and "list_all positive_call calls"
  shows "wallets_ok (run db (take n calls))"
proof -
  have "list_all positive_call (take n calls)"
    using assms(2) by (auto simp: list_all_iff dest: in_set_takeD)
  with assms(1) show ?thesis by (rule run_inv)
qed

theorem wallet_invariant_preserved_witness:
  "wallets_ok empty_db \<and>
   list_all positive_call
     [(Date 2025 0 15 0, ''g1'', ''g2'', GrantCredits ''u1'' 500 Package Purchase
         \<lparr>expiresAt = None, mpPaymentId = None, mpPreferenceId = None\<rparr>),
      (Date 2025 0 16 0, ''g3'', ''g4'', DeductCredits ''u1'' 70 None),
      (Date 2025 1 1 0, ''g5'', ''g6'', ResetFreeCredits ''u1'' None)] \<and>
   wallets_ok (run empty_db
     [(Date 2025 0 15 0, ''g1'', ''g2'', GrantCredits ''u1'' 500 Package Purchase
         \<lparr>expiresAt = None, mpPaymentId = None, mpPreferenceId = None\<rparr>),
      (Date 2025 0 16 0, ''g3'', ''g4'', DeductCredits ''u1'' 70 None),
      (Date 2025 1 1 0, ''g5'', ''g6'', ResetFreeCredits ''u1'' None)])"
proof -
  let ?calls = "[(Date 2025 0 15 0, ''g1'', ''g2'', GrantCredits ''u1'' 500 Package Purchase
         \<lparr>expiresAt = None, mpPaymentId = None, mpPreferenceId = None\<rparr>),
      (Date 2025 0 16 0, ''g3'', ''g4'', DeductCredits ''u1'' 70 None),
      (Date 2025 1 1 0, ''g5'', ''g6'', ResetFreeCredits ''u1'' None)]"
  have pos: "list_all positive_call ?calls" by (simp add: positive_call_def)
  have "wallets_ok (run empty_db (take 3 ?calls))"
    by (rule wallet_invariant_preserved[OF wallets_ok_empty pos])
  then have "wallets_ok (run empty_db ?calls)" by (simp del: run.simps)
  with pos wallets_ok_empty show ?thesis by blast
qed

section \<open>Conservation\<close>

lemma totals_consistent_getOrCreateWallet:
  assumes "totals_consistent db" and g: "getOrCreateWallet db now gid uid = (db1, w)"
  shows "totals_consistent db1"
    and "totalCredits w = freeCredits w + subscriptionCredits w + packageCredits w"
  using assms
  by (auto simp: totals_consistent_def getOrCreateWallet_def Let_def split: option.splits if_splits)

lemma conservation_getOrCreateWallet:
  assumes cons: "\<And>u. conservation db u"
    and g: "getOrCreateWallet db now gid uid = (db1, w)"
  shows "conservation db1 u"
  using cons[of u] cons[of uid] getOrCreateWallet_facts[OF g]
  by (auto simp: conservation_def split: option.splits if_splits)

lemma grantCredits_conserves:
  assumes cons: "\<And>u. conservation db u" and tc: "totals_consistent db"
  shows "conservation (grantCredits db now gid gid' uid credits src reason md) u"
    and "totals_consistent (grantCredits db now gid gid' uid credits src reason md)"
proof -
  let ?p = "\<lparr>gp_userId = uid, gp_source = src, gp_credits = credits,
         gp_reason = reason, gp_expiresAt = expiresAt md,
         gp_mpPaymentId = mpPaymentId md,
         gp_mpPreferenceId = mpPreferenceId md\<rparr>"
  let ?db0 = "createCreditGrant db now gid ?p"
  obtain db2 w where g: "getOrCreateWallet ?db0 now gid' uid = (db2, w)"
    by (cases "getOrCreateWallet ?db0 now gid' uid")
  note f = getOrCreateWallet_facts[OF g]
  have tc0: "totals_consistent ?db0"
    using tc by (simp add: totals_consistent_def)
  note t = totals_consistent_getOrCreateWallet[OF tc0 g]
  note eq = grantCredits_unfold[OF g]
  show "totals_consistent (grantCredits db now gid gid' uid credits src reason md)"
    unfolding eq using t(1) by (cases src) (auto simp: totals_consistent_def)
  show "conservation (grantCredits db now gid gid' uid credits src reason md) u"
    unfolding eq
    using cons[of u] cons[of uid] f(1) f(2)[of u] f(3)[of u] f(4) t(2)
    by (cases src) (auto simp: conservation_def split: option.splits if_splits)
qed

lemma conservation_apply_call:
  assumes cons: "\<And>u. conservation db u" and tc: "totals_consistent db"
    and gr: "creates_or_grants opn"
  shows "conservation (apply_call db now gid gid' opn) u"
    and "totals_consistent (apply_call db now gid gid' opn)"
proof -
  show "conservation (apply_call db now gid gid' opn) u"
  proof (cases opn)
    case (GetOrCreateWallet uid)
    then show ?thesis
      using conservation_getOrCreateWallet[OF cons, of now gid uid]
      by (cases "getOrCreateWallet db now gid uid") simp
  next
    case (GrantCredits uid credits src reason md)
    then show ?thesis using grantCredits_conserves(1)[OF cons tc] by simp
  qed (use gr in simp_all)
  show "totals_consistent (apply_call db now gid gid' opn)"
  proof (cases opn)
    case (GetOrCreateWallet uid)
    then show ?thesis
      using totals_consistent_getOrCreateWallet(1)[OF tc, of now gid uid]
      by (cases "getOrCreateWallet db now gid uid") simp
  next
    case (GrantCredits uid credits src reason md)
    then show ?thesis using grantCredits_conserves(2)[OF cons tc] by simp
  qed (use gr in simp_all)
qed

lemma conservation_run:
  assumes "\<And>u. conservation db u" and "totals_consistent db" and "list_all grant_call calls"
  shows "conservation (run db calls) uid"
  using assms
proof (induction calls arbitrary: db)
  case Nil
  then show ?case by simp
next
  case (Cons c calls)
  obtain now gid gid' opn where c: "c = (now, gid, gid', opn)" by (cases c) auto
  from Cons.prems(3) have gc: "grant_call c" and rest: "list_all grant_call calls"
    by simp_all
  from gc have gr: "creates_or_grants opn" by (simp add: c grant_call_def)
  have "conservation (run (apply_call db now gid gid' opn) calls) uid"
    using conservation_apply_call[OF Cons.prems(1) Cons.prems(2) gr] rest
    by (intro Cons.IH)
  then show ?case by (simp add: c)
qed

lemma conservation_empty: "conservation empty_db u"
  by (simp add: conservation_def empty_db_def sumGrants_def sumCompletedUsage_def)

lemma totals_consistent_empty: "totals_consistent empty_db"
  by (simp add: totals_consistent_def empty_db_def)

text \<open>
  What the code maintains: by \<open>conservation_run\<close>, wallet creations and grants keep the
  equation from every database in which it holds and whose totals are consistent,
  and inserting a ledger entry, which starts as \<open>pending\<close>, keeps it as well.
\<close>

lemma conservation_createUsageLedgerEntry:
  assumes "conservation db u"
  shows "conservation (fst (createUsageLedgerEntry db now newId params)) u"
  using assms
  by (auto simp: createUsageLedgerEntry_def conservation_def sumGrants_def
      sumCompletedUsage_def Let_def split: option.splits)

text \<open>
  \<open>deductCredits\<close> writes neither log. The ledger row of a deduction is left to the
  caller; the unit that pairs the two in \<open>recordUsage\<close> is commented out in the source.
\<close>

lemma deductCredits_leaves_logs:
  "creditGrants (fst (deductCredits db now uid credits src)) = creditGrants db \<and>
   usageLedger (fst (deductCredits db now uid credits src)) = usageLedger db"
  by (simp add: deductCredits_def Let_def split: option.splits)

text \<open>
  \<open>resetFreeCredits\<close> overwrites the free bucket with the new amount and appends a
  grant of the whole amount, not of the difference. On a wallet for which the
  equation holds it therefore keeps the equation only when no free credits were
  left.
\<close>

lemma resetFreeCredits_conservation_iff:
  assumes row: "walletBalances db uid = Some w"
    and tot: "totalCredits w = freeCredits w + subscriptionCredits w + packageCredits w"
    and cons: "conservation db uid"
  shows "conservation (resetFreeCredits db now gid gid' uid amountOpt) uid \<longleftrightarrow>
           freeCredits w = 0"
  using assms
  by (auto simp: resetFreeCredits_def getOrCreateWallet_def conservation_def Let_def)

text \<open>
  Claim C5. The wallet total should equal the grants of the user minus the completed
  ledger entries of the user at every quiescent point. The code breaks this in
  \<open>resetFreeCredits\<close>: after a wallet creation and one monthly reset, with no usage at
  all, the total is 100000 while the grants add up to 200000, and the reconciliation
  of the repository itself computes 200000 and reports that an adjustment is needed.
\<close>

theorem resetFreeCredits_breaks_conservation:
  "map_option totalCredits
     (walletBalances
        (run empty_db
           [(Date 2025 0 15 0, ''g1'', ''g2'', GetOrCreateWallet ''u1''),
            (Date 2025 1 1 0, ''g3'', ''g4'', ResetFreeCredits ''u1'' None)]) ''u1'')
     = Some 100000 \<and>
   sumGrants
     (run empty_db
        [(Date 2025 0 15 0, ''g1'', ''g2'', GetOrCreateWallet ''u1''),
         (Date 2025 1 1 0, ''g3'', ''g4'', ResetFreeCredits ''u1'' None)]) ''u1'' = 200000 \<and>
   sumCompletedUsage
     (run empty_db
        [(Date 2025 0 15 0, ''g1'', ''g2'', GetOrCreateWallet ''u1''),
         (Date 2025 1 1 0, ''g3'', ''g4'', ResetFreeCredits ''u1'' None)]) ''u1'' = 0 \<and>
   \<not> conservation
     (run empty_db
        [(Date 2025 0 15 0, ''g1'', ''g2'', GetOrCreateWallet ''u1''),
         (Date 2025 1 1 0, ''g3'', ''g4'', ResetFreeCredits ''u1'' None)]) ''u1'' \<and>
   snd (reconcileBalance
     (run empty_db
        [(Date 2025 0 15 0, ''g1'', ''g2'', GetOrCreateWallet ''u1''),
         (Date 2025 1 1 0, ''g3'', ''g4'', ResetFreeCredits ''u1'' None)])
     (Date 2025 1 2 0) ''g5'' ''u1'') =
     \<lparr>walletTotal = 100000, calculatedTotal = 200000, difference = 100000,
      needsAdjustment = True\<rparr>"
  by (simp add: conservation_def empty_db_def getOrCreateWallet_def resetFreeCredits_def
      createCreditGrant_def sumGrants_def sumCompletedUsage_def sumUsage_def Let_def nullish_def
      reconcileBalance_def)

end
